theory Spec2Isabelle
  imports Main "HOL-Library.Word"
begin

unbundle bit_operations_syntax

section \<open>The event-loop bridge of libweston/backend-vnc/aml-wl-backend.c\<close>

text \<open>
  The file adapts the inner loop (libaml) to the host loop (a Wayland event loop).
  Masks are \<open>uint32_t\<close>; a non-NULL C pointer is an address, a pointer that may be
  NULL is an \<open>option\<close> of an address.
\<close>

type_synonym u32 = "32 word"
type_synonym ptr = nat

subsection \<open>Mask translation\<close>

text \<open>
  \<open>POLLIN\<close> and \<open>POLLOUT\<close> come from \<open>poll.h\<close>, \<open>WL_EVENT_READABLE\<close> and
  \<open>WL_EVENT_WRITABLE\<close> from \<open>wayland-server.h\<close>. Neither header belongs to the
  repository, so the four macros are a parameter of the model.
\<close>

record event_bits =
  POLLIN :: u32
  POLLOUT :: u32
  WL_EVENT_READABLE :: u32
  WL_EVENT_WRITABLE :: u32

text \<open>
  The values the macros have on Linux (\<open>bits/poll.h\<close>: \<open>POLLIN 0x001\<close>,
  \<open>POLLOUT 0x004\<close>) and in libwayland (\<open>wayland-server-core.h\<close>:
  \<open>WL_EVENT_READABLE = 0x01\<close>, \<open>WL_EVENT_WRITABLE = 0x02\<close>).
\<close>

definition linux_wayland_bits :: event_bits where
  "linux_wayland_bits =
     \<lparr>POLLIN = 0x001, POLLOUT = 0x004, WL_EVENT_READABLE = 0x01, WL_EVENT_WRITABLE = 0x02\<rparr>"

text \<open>A macro names one bit when its value is a power of two below \<open>2 ^ 32\<close>.\<close>

definition single_bit :: "u32 \<Rightarrow> bool" where
  "single_bit b = (\<exists>n \<in> {0..<32}. b = push_bit n 1)"

text \<open>Each side has two different single bits.\<close>

definition valid_bits :: "event_bits \<Rightarrow> bool" where
  "valid_bits c =
     (single_bit (POLLIN c) \<and> single_bit (POLLOUT c) \<and> POLLIN c \<noteq> POLLOUT c \<and>
      single_bit (WL_EVENT_READABLE c) \<and> single_bit (WL_EVENT_WRITABLE c) \<and>
      WL_EVENT_READABLE c \<noteq> WL_EVENT_WRITABLE c)"

text \<open>
  \<^verbatim>\<open>
  static uint32_t wl_backend_events_from_poll_events(uint32_t in)
  {
          uint32_t out = 0;
          if (in & POLLIN) out |= WL_EVENT_READABLE;
          if (in & POLLOUT) out |= WL_EVENT_WRITABLE;
          return out;
  }
  \<close>
\<close>

definition wl_backend_events_from_poll_events :: "event_bits \<Rightarrow> u32 \<Rightarrow> u32" where
  "wl_backend_events_from_poll_events c inp =
     (let out = 0;
          out = (if inp AND POLLIN c \<noteq> 0 then out OR WL_EVENT_READABLE c else out);
          out = (if inp AND POLLOUT c \<noteq> 0 then out OR WL_EVENT_WRITABLE c else out)
      in out)"

text \<open>
  \<^verbatim>\<open>
  static uint32_t wl_backend_events_to_poll_events(uint32_t in)
  {
          uint32_t out = 0;
          if (in & WL_EVENT_READABLE) out |= POLLIN;
          if (in & WL_EVENT_WRITABLE) out |= POLLOUT;
          return out;
  }
  \<close>
\<close>

definition wl_backend_events_to_poll_events :: "event_bits \<Rightarrow> u32 \<Rightarrow> u32" where
  "wl_backend_events_to_poll_events c inp =
     (let out = 0;
          out = (if inp AND WL_EVENT_READABLE c \<noteq> 0 then out OR POLLIN c else out);
          out = (if inp AND WL_EVENT_WRITABLE c \<noteq> 0 then out OR POLLOUT c else out)
      in out)"

subsection \<open>Memory, the inner loop and the host loop\<close>

text \<open>
  Dereferencing a pointer that points to no live object is undefined behaviour in C; the
  model stops there with a fault.
\<close>

datatype fault = InvalidPointer

text \<open>
  \<open>void* aml_obj\<close> points to a \<open>struct aml_handler\<close> or to a \<open>struct aml_signal\<close>.
\<close>

datatype obj_ref = HandlerRef ptr | SignalRef ptr

text \<open>
  \<^verbatim>\<open>
  struct wl_backend_state {
          struct aml* aml;
          struct wl_event_loop* loop;
  };

  struct event_source_data {
          void* aml_obj;
          struct wl_backend_state* state;
          struct wl_event_source* src;
  };
  \<close>
\<close>

record wl_backend_state =
  aml :: ptr
  loop :: "ptr option"

record event_source_data =
  aml_obj :: obj_ref
  state :: ptr
  src :: "ptr option"

text \<open>
  The watchable objects belong to the inner loop (libaml, not part of the repository).
  The bridge reads a handler's file descriptor and interest mask (\<open>aml_get_fd\<close>,
  \<open>aml_get_event_mask\<close>), a signal watcher's number (\<open>aml_get_signo\<close>), and reads and
  writes the backend-private pointer of both (\<open>aml_get_backend_data\<close>,
  \<open>aml_set_backend_data\<close>).
\<close>

record aml_handler =
  fd :: int
  event_mask :: u32
  handler_backend_data :: "ptr option"

record aml_signal =
  signo :: int
  signal_backend_data :: "ptr option"

text \<open>The two relay functions, as the function pointers handed to the host loop.\<close>

datatype callback = On_fd_event | On_signal

text \<open>
  A registration of the host loop (libwayland, not part of the repository): the loop it
  was made on, what it watches, and the callback and context it was given.
\<close>

datatype source_kind = Fd_source int u32 | Signal_source int

record wl_event_source =
  src_loop :: ptr
  src_kind :: source_kind
  src_func :: callback
  src_data :: ptr

text \<open>
  Every call the bridge makes into one of the two loops is recorded, in order, with its
  arguments.
\<close>

datatype call =
    Aml_emit ptr obj_ref u32
  | Aml_dispatch ptr
  | Wl_event_loop_add_fd ptr int u32 callback ptr
  | Wl_event_source_fd_update ptr u32
  | Wl_event_source_remove ptr
  | Wl_event_loop_add_signal ptr int callback ptr

text \<open>
  The state of the process: the file's static variable \<open>wl_loop\<close>, the live
  \<open>wl_backend_state\<close> and \<open>event_source_data\<close> objects, the inner loop's watchers, the
  host loop's registrations, and the calls made so far.
\<close>

record world =
  wl_loop :: "ptr option"
  state_heap :: "ptr \<rightharpoonup> wl_backend_state"
  data_heap :: "ptr \<rightharpoonup> event_source_data"
  handlers :: "ptr \<rightharpoonup> aml_handler"
  signals :: "ptr \<rightharpoonup> aml_signal"
  sources :: "ptr \<rightharpoonup> wl_event_source"
  calls :: "call list"

subsection \<open>Primitives of the two loops\<close>

text \<open>
  \<open>aml_emit\<close> queues an event on one object and \<open>aml_dispatch\<close> runs the inner loop's
  dispatch pass. What the inner loop does with them is not the bridge's: the model
  records the call.
\<close>

definition aml_emit :: "ptr \<Rightarrow> obj_ref \<Rightarrow> u32 \<Rightarrow> world \<Rightarrow> world" where
  "aml_emit a obj revents w = w\<lparr>calls := calls w @ [Aml_emit a obj revents]\<rparr>"

definition aml_dispatch :: "ptr \<Rightarrow> world \<Rightarrow> world" where
  "aml_dispatch a w = w\<lparr>calls := calls w @ [Aml_dispatch a]\<rparr>"

text \<open>
  \<open>wl_event_loop_add_fd(loop, fd, mask, func, data)\<close>. The host loop decides the
  outcome \<open>res\<close>: the new registration's handle, or NULL.
\<close>

definition wl_event_loop_add_fd ::
  "ptr option \<Rightarrow> ptr option \<Rightarrow> int \<Rightarrow> u32 \<Rightarrow> callback \<Rightarrow> ptr \<Rightarrow> world
     \<Rightarrow> fault + (ptr option \<times> world)" where
  "wl_event_loop_add_fd res lp f msk func data w =
     (case lp of
        None \<Rightarrow> Inl InvalidPointer
      | Some l \<Rightarrow>
          (let w1 = w\<lparr>calls := calls w @ [Wl_event_loop_add_fd l f msk func data]\<rparr> in
           case res of
             None \<Rightarrow> Inr (None, w1)
           | Some s \<Rightarrow>
               Inr (Some s, w1\<lparr>sources := (sources w1)(s \<mapsto>
                      \<lparr>src_loop = l, src_kind = Fd_source f msk,
                       src_func = func, src_data = data\<rparr>)\<rparr>)))"

text \<open>\<open>wl_event_loop_add_signal(loop, signal_number, func, data)\<close>, likewise.\<close>

definition wl_event_loop_add_signal ::
  "ptr option \<Rightarrow> ptr option \<Rightarrow> int \<Rightarrow> callback \<Rightarrow> ptr \<Rightarrow> world
     \<Rightarrow> fault + (ptr option \<times> world)" where
  "wl_event_loop_add_signal res lp n func data w =
     (case lp of
        None \<Rightarrow> Inl InvalidPointer
      | Some l \<Rightarrow>
          (let w1 = w\<lparr>calls := calls w @ [Wl_event_loop_add_signal l n func data]\<rparr> in
           case res of
             None \<Rightarrow> Inr (None, w1)
           | Some s \<Rightarrow>
               Inr (Some s, w1\<lparr>sources := (sources w1)(s \<mapsto>
                      \<lparr>src_loop = l, src_kind = Signal_source n,
                       src_func = func, src_data = data\<rparr>)\<rparr>)))"

fun set_mask :: "u32 \<Rightarrow> source_kind \<Rightarrow> source_kind" where
  "set_mask m (Fd_source f _) = Fd_source f m"
| "set_mask m (Signal_source n) = Signal_source n"

text \<open>
  \<open>int wl_event_source_fd_update(source, mask)\<close>. The host loop decides the status
  \<open>res\<close> it returns; the registration has the new mask when the status is 0.
\<close>

definition wl_event_source_fd_update ::
  "int \<Rightarrow> ptr option \<Rightarrow> u32 \<Rightarrow> world \<Rightarrow> fault + (int \<times> world)" where
  "wl_event_source_fd_update res sp msk w =
     (case sp of
        None \<Rightarrow> Inl InvalidPointer
      | Some s \<Rightarrow>
          (case sources w s of
             None \<Rightarrow> Inl InvalidPointer
           | Some r \<Rightarrow>
               (let w1 = w\<lparr>calls := calls w @ [Wl_event_source_fd_update s msk]\<rparr> in
                Inr (res,
                  if res = 0
                  then w1\<lparr>sources := (sources w1)(s \<mapsto>
                            r\<lparr>src_kind := set_mask msk (src_kind r)\<rparr>)\<rparr>
                  else w1))))"

text \<open>
  \<open>int wl_event_source_remove(source)\<close>: the registration is gone afterwards; the host
  loop decides the status \<open>res\<close> it returns.
\<close>

definition wl_event_source_remove ::
  "int \<Rightarrow> ptr option \<Rightarrow> world \<Rightarrow> fault + (int \<times> world)" where
  "wl_event_source_remove res sp w =
     (case sp of
        None \<Rightarrow> Inl InvalidPointer
      | Some s \<Rightarrow>
          (case sources w s of
             None \<Rightarrow> Inl InvalidPointer
           | Some r \<Rightarrow>
               Inr (res, w\<lparr>calls := calls w @ [Wl_event_source_remove s],
                           sources := (sources w)(s := None)\<rparr>)))"

text \<open>\<open>free(data)\<close> for an \<open>event_source_data\<close>.\<close>

definition free_data :: "ptr \<Rightarrow> world \<Rightarrow> world" where
  "free_data d w = w\<lparr>data_heap := (data_heap w)(d := None)\<rparr>"

subsection \<open>Backend state\<close>

text \<open>
  \<^verbatim>\<open>
  static struct wl_event_loop* wl_loop = NULL;

  static void* wl_backend_new_state(struct aml* aml)
  {
          struct wl_backend_state* state = calloc(1, sizeof(*state));
          if (!state)
                  return NULL;
          state->aml = aml;
          state->loop = wl_loop;
          return state;
  }
  \<close>
  \<open>calloc_res\<close> is what \<open>calloc\<close> returns: a new address, or NULL.
\<close>

definition wl_backend_new_state :: "ptr option \<Rightarrow> ptr \<Rightarrow> world \<Rightarrow> ptr option \<times> world" where
  "wl_backend_new_state calloc_res a w =
     (case calloc_res of
        None \<Rightarrow> (None, w)
      | Some st \<Rightarrow>
          (Some st, w\<lparr>state_heap := (state_heap w)(st \<mapsto> \<lparr>aml = a, loop = wl_loop w\<rparr>)\<rparr>))"

text \<open>\<open>wl_backend_del_state\<close> is \<open>free(state)\<close>; \<open>wl_backend_exit\<close> has an empty body.\<close>

definition wl_backend_del_state :: "ptr \<Rightarrow> world \<Rightarrow> world" where
  "wl_backend_del_state st w = w\<lparr>state_heap := (state_heap w)(st := None)\<rparr>"

definition wl_backend_exit :: "world \<Rightarrow> world" where
  "wl_backend_exit w = w"

text \<open>
  \<^verbatim>\<open>
  struct aml* aml_wl_loop_init(struct wl_event_loop* loop)
  {
          wl_loop = loop;
          return aml_new(&aml_wl_backend, sizeof(aml_wl_backend));
  }
  \<close>
  \<open>aml_new\<close> belongs to the inner loop. Of what it does, the model has the call of the
  backend's \<open>new_state\<close> on the new loop \<open>aml_res\<close> (NULL when the inner loop could not
  be allocated), and the NULL result when \<open>new_state\<close> returns NULL.
\<close>

definition aml_new :: "ptr option \<Rightarrow> ptr option \<Rightarrow> world \<Rightarrow> ptr option \<times> world" where
  "aml_new aml_res calloc_res w =
     (case aml_res of
        None \<Rightarrow> (None, w)
      | Some a \<Rightarrow>
          (case wl_backend_new_state calloc_res a w of
             (None, w1) \<Rightarrow> (None, w1)
           | (Some st, w1) \<Rightarrow> (Some a, w1)))"

definition aml_wl_loop_init ::
  "ptr option \<Rightarrow> ptr option \<Rightarrow> ptr option \<Rightarrow> world \<Rightarrow> ptr option \<times> world" where
  "aml_wl_loop_init aml_res calloc_res lp w = aml_new aml_res calloc_res (w\<lparr>wl_loop := lp\<rparr>)"

subsection \<open>Bridge entries\<close>

text \<open>
  \<^verbatim>\<open>
  static struct event_source_data*
  event_source_data_new(void* obj, struct wl_backend_state* state)
  {
          struct event_source_data* data = calloc(1, sizeof(*data));
          if (!data)
                  return NULL;
          data->aml_obj = obj;
          data->state = state;
          return data;
  }
  \<close>
  \<open>calloc\<close> zeroes the object, so \<open>src\<close> is NULL in the new entry.
\<close>

definition event_source_data_new ::
  "ptr option \<Rightarrow> obj_ref \<Rightarrow> ptr \<Rightarrow> world \<Rightarrow> ptr option \<times> world" where
  "event_source_data_new calloc_res obj st w =
     (case calloc_res of
        None \<Rightarrow> (None, w)
      | Some data \<Rightarrow>
          (Some data,
           w\<lparr>data_heap := (data_heap w)(data \<mapsto> \<lparr>aml_obj = obj, state = st, src = None\<rparr>)\<rparr>))"

subsection \<open>Dispatch relay\<close>

text \<open>The read \<open>data->state->aml\<close>.\<close>

definition data_state_aml :: "ptr \<Rightarrow> world \<Rightarrow> fault + ptr" where
  "data_state_aml data w =
     (case data_heap w data of
        None \<Rightarrow> Inl InvalidPointer
      | Some d \<Rightarrow>
          (case state_heap w (state d) of
             None \<Rightarrow> Inl InvalidPointer
           | Some s \<Rightarrow> Inr (aml s)))"

text \<open>
  \<^verbatim>\<open>
  static int wl_backend_on_fd_event(int fd, uint32_t mask, void* userdata)
  {
          struct event_source_data* data = userdata;
          uint32_t revents = wl_backend_events_to_poll_events(mask);
          aml_emit(data->state->aml, data->aml_obj, revents);
          aml_dispatch(data->state->aml);
          return 0;
  }
  \<close>
\<close>

definition wl_backend_on_fd_event ::
  "event_bits \<Rightarrow> int \<Rightarrow> u32 \<Rightarrow> ptr \<Rightarrow> world \<Rightarrow> fault + (int \<times> world)" where
  "wl_backend_on_fd_event c f msk userdata w =
     (let data = userdata;
          revents = wl_backend_events_to_poll_events c msk
      in case data_state_aml data w of
           Inl e \<Rightarrow> Inl e
         | Inr a \<Rightarrow>
             (case data_heap w data of
                None \<Rightarrow> Inl InvalidPointer
              | Some d \<Rightarrow>
                  (let w1 = aml_emit a (aml_obj d) revents w
                   in case data_state_aml data w1 of
                        Inl e \<Rightarrow> Inl e
                      | Inr a' \<Rightarrow> Inr (0, aml_dispatch a' w1))))"

text \<open>
  \<^verbatim>\<open>
  static int wl_backend_on_signal(int signo, void* userdata)
  {
          struct event_source_data* data = userdata;
          aml_emit(data->state->aml, data->aml_obj, 0);
          aml_dispatch(data->state->aml);
          return 0;
  }
  \<close>
\<close>

definition wl_backend_on_signal :: "int \<Rightarrow> ptr \<Rightarrow> world \<Rightarrow> fault + (int \<times> world)" where
  "wl_backend_on_signal n userdata w =
     (let data = userdata
      in case data_state_aml data w of
           Inl e \<Rightarrow> Inl e
         | Inr a \<Rightarrow>
             (case data_heap w data of
                None \<Rightarrow> Inl InvalidPointer
              | Some d \<Rightarrow>
                  (let w1 = aml_emit a (aml_obj d) 0 w
                   in case data_state_aml data w1 of
                        Inl e \<Rightarrow> Inl e
                      | Inr a' \<Rightarrow> Inr (0, aml_dispatch a' w1))))"

subsection \<open>Source lifecycle: file descriptors\<close>

text \<open>
  \<^verbatim>\<open>
  static int wl_backend_add_fd(void* state, struct aml_handler* handler)
  {
          struct wl_event_source* src;
          struct wl_backend_state* self = state;
          int fd = aml_get_fd(handler);
          uint32_t aml_event_mask = aml_get_event_mask(handler);
          uint32_t events = wl_backend_events_from_poll_events(aml_event_mask);

          struct event_source_data* data = event_source_data_new(handler, state);
          if (!data)
                  return -1;

          src = wl_event_loop_add_fd(self->loop, fd, events,
                                     wl_backend_on_fd_event, data);
          if (!src)
                  goto failure;

          data->src = src;
          aml_set_backend_data(handler, data);

          return 0;

  failure:
          free(data);
          return -1;
  }
  \<close>
  \<open>calloc_res\<close> is what \<open>calloc\<close> returns and \<open>add_res\<close> what the host loop returns.
\<close>

definition wl_backend_add_fd ::
  "event_bits \<Rightarrow> ptr option \<Rightarrow> ptr option \<Rightarrow> ptr \<Rightarrow> ptr \<Rightarrow> world
     \<Rightarrow> fault + (int \<times> world)" where
  "wl_backend_add_fd c calloc_res add_res st handler w =
     (case handlers w handler of
        None \<Rightarrow> Inl InvalidPointer
      | Some h \<Rightarrow>
          (let aml_event_mask = event_mask h;
               events = wl_backend_events_from_poll_events c aml_event_mask
           in case event_source_data_new calloc_res (HandlerRef handler) st w of
                (None, w1) \<Rightarrow> Inr (- 1, w1)
              | (Some data, w1) \<Rightarrow>
                  (case state_heap w1 st of
                     None \<Rightarrow> Inl InvalidPointer
                   | Some self \<Rightarrow>
                       (case wl_event_loop_add_fd add_res (loop self) (fd h) events
                               On_fd_event data w1 of
                          Inl e \<Rightarrow> Inl e
                        | Inr (None, w2) \<Rightarrow> Inr (- 1, free_data data w2)
                        | Inr (Some s, w2) \<Rightarrow>
                            (case data_heap w2 data of
                               None \<Rightarrow> Inl InvalidPointer
                             | Some d \<Rightarrow>
                                 Inr (0, w2\<lparr>data_heap := (data_heap w2)(data \<mapsto>
                                                d\<lparr>src := Some s\<rparr>),
                                            handlers := (handlers w2)(handler \<mapsto>
                                                h\<lparr>handler_backend_data := Some data\<rparr>)\<rparr>))))))"

text \<open>
  \<^verbatim>\<open>
  static int wl_backend_mod_fd(void* state, struct aml_handler* handler)
  {
          struct event_source_data* data = aml_get_backend_data(handler);
          uint32_t aml_event_mask = aml_get_event_mask(handler);
          uint32_t wl_mask = wl_backend_events_from_poll_events(aml_event_mask);
          wl_event_source_fd_update(data->src, wl_mask);
          return 0;
  }
  \<close>
  \<open>upd_res\<close> is the status the host loop returns.
\<close>

definition wl_backend_mod_fd ::
  "event_bits \<Rightarrow> int \<Rightarrow> ptr \<Rightarrow> ptr \<Rightarrow> world \<Rightarrow> fault + (int \<times> world)" where
  "wl_backend_mod_fd c upd_res st handler w =
     (case handlers w handler of
        None \<Rightarrow> Inl InvalidPointer
      | Some h \<Rightarrow>
          (let aml_event_mask = event_mask h;
               wl_mask = wl_backend_events_from_poll_events c aml_event_mask
           in case handler_backend_data h of
                None \<Rightarrow> Inl InvalidPointer
              | Some data \<Rightarrow>
                  (case data_heap w data of
                     None \<Rightarrow> Inl InvalidPointer
                   | Some d \<Rightarrow>
                       (case wl_event_source_fd_update upd_res (src d) wl_mask w of
                          Inl e \<Rightarrow> Inl e
                        | Inr (r, w1) \<Rightarrow> Inr (0, w1)))))"

text \<open>
  \<^verbatim>\<open>
  static int wl_backend_del_fd(void* state, struct aml_handler* handler)
  {
          struct event_source_data* data = aml_get_backend_data(handler);
          wl_event_source_remove(data->src);
          free(data);
          return 0;
  }
  \<close>
  \<open>rm_res\<close> is the status the host loop returns.
\<close>

definition wl_backend_del_fd ::
  "int \<Rightarrow> ptr \<Rightarrow> ptr \<Rightarrow> world \<Rightarrow> fault + (int \<times> world)" where
  "wl_backend_del_fd rm_res st handler w =
     (case handlers w handler of
        None \<Rightarrow> Inl InvalidPointer
      | Some h \<Rightarrow>
          (case handler_backend_data h of
             None \<Rightarrow> Inl InvalidPointer
           | Some data \<Rightarrow>
               (case data_heap w data of
                  None \<Rightarrow> Inl InvalidPointer
                | Some d \<Rightarrow>
                    (case wl_event_source_remove rm_res (src d) w of
                       Inl e \<Rightarrow> Inl e
                     | Inr (r, w1) \<Rightarrow> Inr (0, free_data data w1)))))"

subsection \<open>Source lifecycle: signals\<close>

text \<open>
  \<^verbatim>\<open>
  static int wl_backend_add_signal(void* state, struct aml_signal* sig)
  {
          struct wl_event_source* src;
          struct wl_backend_state* self = state;
          int signo = aml_get_signo(sig);

          struct event_source_data* data = event_source_data_new(sig, state);
          if (!data)
                  return -1;

          src = wl_event_loop_add_signal(self->loop, signo, wl_backend_on_signal,
                                         data);
          if (!src)
                  goto failure;

          data->src = src;
          aml_set_backend_data(sig, data);

          return 0;

  failure:
          free(data);
          return -1;
  }
  \<close>
\<close>

definition wl_backend_add_signal ::
  "ptr option \<Rightarrow> ptr option \<Rightarrow> ptr \<Rightarrow> ptr \<Rightarrow> world \<Rightarrow> fault + (int \<times> world)" where
  "wl_backend_add_signal calloc_res add_res st sig w =
     (case signals w sig of
        None \<Rightarrow> Inl InvalidPointer
      | Some g \<Rightarrow>
          (case event_source_data_new calloc_res (SignalRef sig) st w of
             (None, w1) \<Rightarrow> Inr (- 1, w1)
           | (Some data, w1) \<Rightarrow>
               (case state_heap w1 st of
                  None \<Rightarrow> Inl InvalidPointer
                | Some self \<Rightarrow>
                    (case wl_event_loop_add_signal add_res (loop self) (signo g)
                            On_signal data w1 of
                       Inl e \<Rightarrow> Inl e
                     | Inr (None, w2) \<Rightarrow> Inr (- 1, free_data data w2)
                     | Inr (Some s, w2) \<Rightarrow>
                         (case data_heap w2 data of
                            None \<Rightarrow> Inl InvalidPointer
                          | Some d \<Rightarrow>
                              Inr (0, w2\<lparr>data_heap := (data_heap w2)(data \<mapsto>
                                             d\<lparr>src := Some s\<rparr>),
                                         signals := (signals w2)(sig \<mapsto>
                                             g\<lparr>signal_backend_data := Some data\<rparr>)\<rparr>))))))"

text \<open>
  \<^verbatim>\<open>
  static int wl_backend_del_signal(void* state, struct aml_signal* sig)
  {
          struct event_source_data* data = aml_get_backend_data(sig);
          wl_event_source_remove(data->src);
          free(data);
          return 0;
  }
  \<close>
\<close>

definition wl_backend_del_signal ::
  "int \<Rightarrow> ptr \<Rightarrow> ptr \<Rightarrow> world \<Rightarrow> fault + (int \<times> world)" where
  "wl_backend_del_signal rm_res st sig w =
     (case signals w sig of
        None \<Rightarrow> Inl InvalidPointer
      | Some g \<Rightarrow>
          (case signal_backend_data g of
             None \<Rightarrow> Inl InvalidPointer
           | Some data \<Rightarrow>
               (case data_heap w data of
                  None \<Rightarrow> Inl InvalidPointer
                | Some d \<Rightarrow>
                    (case wl_event_source_remove rm_res (src d) w of
                       Inl e \<Rightarrow> Inl e
                     | Inr (r, w1) \<Rightarrow> Inr (0, free_data data w1)))))"

subsection \<open>The backend as the inner loop and the host loop drive it\<close>

text \<open>
  \<^verbatim>\<open>
  static struct aml_backend aml_wl_backend = {
          .new_state = wl_backend_new_state,
          .del_state = wl_backend_del_state,
          .poll = NULL,
          .exit = wl_backend_exit,
          .add_fd = wl_backend_add_fd,
          .mod_fd = wl_backend_mod_fd,
          .del_fd = wl_backend_del_fd,
          .add_signal = wl_backend_add_signal,
          .del_signal = wl_backend_del_signal,
  };
  \<close>
  One entry into the file: \<open>aml_wl_loop_init\<close> from the application, a function of the
  backend table from the inner loop, or a relay from the host loop. Each carries the
  outcomes the environment decides during the call.
\<close>

datatype op =
    Op_init "ptr option" "ptr option" "ptr option"
  | Op_new_state "ptr option" ptr
  | Op_del_state ptr
  | Op_exit
  | Op_add_fd "ptr option" "ptr option" ptr ptr
  | Op_mod_fd int ptr ptr
  | Op_del_fd int ptr ptr
  | Op_add_signal "ptr option" "ptr option" ptr ptr
  | Op_del_signal int ptr ptr
  | Op_fd_event int u32 ptr
  | Op_signal int ptr

fun is_init :: "op \<Rightarrow> bool" where
  "is_init (Op_init _ _ _) = True"
| "is_init _ = False"

definition after :: "fault + ('a \<times> world) \<Rightarrow> fault + world" where
  "after r = (case r of Inl e \<Rightarrow> Inl e | Inr (_, w) \<Rightarrow> Inr w)"

fun step :: "event_bits \<Rightarrow> op \<Rightarrow> world \<Rightarrow> fault + world" where
  "step c (Op_init aml_res calloc_res lp) w = Inr (snd (aml_wl_loop_init aml_res calloc_res lp w))"
| "step c (Op_new_state calloc_res a) w = Inr (snd (wl_backend_new_state calloc_res a w))"
| "step c (Op_del_state st) w = Inr (wl_backend_del_state st w)"
| "step c Op_exit w = Inr (wl_backend_exit w)"
| "step c (Op_add_fd calloc_res add_res st handler) w =
     after (wl_backend_add_fd c calloc_res add_res st handler w)"
| "step c (Op_mod_fd upd_res st handler) w = after (wl_backend_mod_fd c upd_res st handler w)"
| "step c (Op_del_fd rm_res st handler) w = after (wl_backend_del_fd rm_res st handler w)"
| "step c (Op_add_signal calloc_res add_res st sig) w =
     after (wl_backend_add_signal calloc_res add_res st sig w)"
| "step c (Op_del_signal rm_res st sig) w = after (wl_backend_del_signal rm_res st sig w)"
| "step c (Op_fd_event f msk userdata) w = after (wl_backend_on_fd_event c f msk userdata w)"
| "step c (Op_signal n userdata) w = after (wl_backend_on_signal n userdata w)"

fun run :: "event_bits \<Rightarrow> op list \<Rightarrow> world \<Rightarrow> fault + world" where
  "run c [] w = Inr w"
| "run c (x # xs) w = (case step c x w of Inl e \<Rightarrow> Inl e | Inr w1 \<Rightarrow> run c xs w1)"

subsection \<open>Preconditions and observations\<close>

text \<open>The status a backend function returns to the inner loop, if it returns.\<close>

definition status :: "fault + (int \<times> world) \<Rightarrow> int option" where
  "status r = (case r of Inl _ \<Rightarrow> None | Inr (i, _) \<Rightarrow> Some i)"

text \<open>A backend state is usable when it is live and its host loop is not NULL.\<close>

definition state_ok :: "world \<Rightarrow> ptr \<Rightarrow> bool" where
  "state_ok w st = (case state_heap w st of None \<Rightarrow> False | Some s \<Rightarrow> loop s \<noteq> None)"

text \<open>
  A backend-private pointer is attached when it points to a live entry whose \<open>src\<close> is a
  live registration of the host loop.
\<close>

definition attached :: "world \<Rightarrow> ptr option \<Rightarrow> bool" where
  "attached w p =
     (case p of
        None \<Rightarrow> False
      | Some data \<Rightarrow>
          (case data_heap w data of
             None \<Rightarrow> False
           | Some d \<Rightarrow> (case src d of None \<Rightarrow> False | Some s \<Rightarrow> sources w s \<noteq> None)))"

definition fd_attached :: "world \<Rightarrow> ptr \<Rightarrow> bool" where
  "fd_attached w handler =
     (case handlers w handler of
        None \<Rightarrow> False
      | Some h \<Rightarrow> attached w (handler_backend_data h))"

definition signal_attached :: "world \<Rightarrow> ptr \<Rightarrow> bool" where
  "signal_attached w sig =
     (case signals w sig of
        None \<Rightarrow> False
      | Some g \<Rightarrow> attached w (signal_backend_data g))"

text \<open>The interest mask the host loop has recorded for a registration.\<close>

definition recorded_mask :: "world \<Rightarrow> ptr \<Rightarrow> u32 option" where
  "recorded_mask w s =
     (case sources w s of
        None \<Rightarrow> None
      | Some r \<Rightarrow> (case src_kind r of Fd_source _ m \<Rightarrow> Some m | Signal_source _ \<Rightarrow> None))"

subsection \<open>The inner loop changing a watcher\<close>

text \<open>
  The inner loop owns the handlers. It changes a handler's interest mask and then calls
  the backend's \<open>mod_fd\<close>, which reads the mask again with \<open>aml_get_event_mask\<close>.
\<close>

definition set_event_mask :: "ptr \<Rightarrow> u32 \<Rightarrow> world \<Rightarrow> world" where
  "set_event_mask handler m w =
     (case handlers w handler of
        None \<Rightarrow> w
      | Some h \<Rightarrow> w\<lparr>handlers := (handlers w)(handler \<mapsto> h\<lparr>event_mask := m\<rparr>)\<rparr>)"

subsection \<open>A concrete process\<close>

text \<open>
  Before \<open>aml_wl_loop_init\<close>: \<open>wl_loop\<close> is NULL, the inner loop will have a handler at
  address 2 for file descriptor 7 with interest \<open>POLLIN\<close> and a signal watcher at address
  3 for signal 15.
\<close>

definition boot :: world where
  "boot =
     \<lparr>wl_loop = None,
      state_heap = Map.empty,
      data_heap = Map.empty,
      handlers = [2 \<mapsto> \<lparr>fd = 7, event_mask = 0x001, handler_backend_data = None\<rparr>],
      signals = [3 \<mapsto> \<lparr>signo = 15, signal_backend_data = None\<rparr>],
      sources = Map.empty,
      calls = []\<rparr>"

text \<open>
  After \<open>aml_wl_loop_init\<close> with the host loop 100: the inner loop 10 has its backend
  state at address 1.
\<close>

definition world0 :: world where
  "world0 =
     \<lparr>wl_loop = Some 100,
      state_heap = [1 \<mapsto> \<lparr>aml = 10, loop = Some 100\<rparr>],
      data_heap = Map.empty,
      handlers = [2 \<mapsto> \<lparr>fd = 7, event_mask = 0x001, handler_backend_data = None\<rparr>],
      signals = [3 \<mapsto> \<lparr>signo = 15, signal_backend_data = None\<rparr>],
      sources = Map.empty,
      calls = []\<rparr>"

text \<open>
  After \<open>add_fd\<close> on the handler: the entry is at address 4 and the host loop's
  registration at address 5.
\<close>

definition world_fd_added :: world where
  "world_fd_added =
     \<lparr>wl_loop = Some 100,
      state_heap = [1 \<mapsto> \<lparr>aml = 10, loop = Some 100\<rparr>],
      data_heap = [4 \<mapsto> \<lparr>aml_obj = HandlerRef 2, state = 1, src = Some 5\<rparr>],
      handlers = [2 \<mapsto> \<lparr>fd = 7, event_mask = 0x001, handler_backend_data = Some 4\<rparr>],
      signals = [3 \<mapsto> \<lparr>signo = 15, signal_backend_data = None\<rparr>],
      sources = [5 \<mapsto> \<lparr>src_loop = 100, src_kind = Fd_source 7 0x01,
                          src_func = On_fd_event, src_data = 4\<rparr>],
      calls = [Wl_event_loop_add_fd 100 7 0x01 On_fd_event 4]\<rparr>"

text \<open>After \<open>del_fd\<close> on the handler, the host loop returning 0.\<close>

definition world_fd_deleted :: world where
  "world_fd_deleted =
     \<lparr>wl_loop = Some 100,
      state_heap = [1 \<mapsto> \<lparr>aml = 10, loop = Some 100\<rparr>],
      data_heap = Map.empty,
      handlers = [2 \<mapsto> \<lparr>fd = 7, event_mask = 0x001, handler_backend_data = Some 4\<rparr>],
      signals = [3 \<mapsto> \<lparr>signo = 15, signal_backend_data = None\<rparr>],
      sources = Map.empty,
      calls = [Wl_event_loop_add_fd 100 7 0x01 On_fd_event 4, Wl_event_source_remove 5]\<rparr>"

text \<open>
  After \<open>add_fd\<close>, a change of the handler's interest to \<open>POLLOUT\<close>, and a \<open>mod_fd\<close> during
  which the host loop's \<open>wl_event_source_fd_update\<close> returned -1.
\<close>

definition world_fd_update_rejected :: world where
  "world_fd_update_rejected =
     \<lparr>wl_loop = Some 100,
      state_heap = [1 \<mapsto> \<lparr>aml = 10, loop = Some 100\<rparr>],
      data_heap = [4 \<mapsto> \<lparr>aml_obj = HandlerRef 2, state = 1, src = Some 5\<rparr>],
      handlers = [2 \<mapsto> \<lparr>fd = 7, event_mask = 0x004, handler_backend_data = Some 4\<rparr>],
      signals = [3 \<mapsto> \<lparr>signo = 15, signal_backend_data = None\<rparr>],
      sources = [5 \<mapsto> \<lparr>src_loop = 100, src_kind = Fd_source 7 0x01,
                          src_func = On_fd_event, src_data = 4\<rparr>],
      calls = [Wl_event_loop_add_fd 100 7 0x01 On_fd_event 4,
               Wl_event_source_fd_update 5 0x02]\<rparr>"

text \<open>
  After \<open>add_signal\<close> on the signal watcher instead: the entry is at address 6 and the
  host loop's registration at address 8.
\<close>

definition world_signal_added :: world where
  "world_signal_added =
     \<lparr>wl_loop = Some 100,
      state_heap = [1 \<mapsto> \<lparr>aml = 10, loop = Some 100\<rparr>],
      data_heap = [6 \<mapsto> \<lparr>aml_obj = SignalRef 3, state = 1, src = Some 8\<rparr>],
      handlers = [2 \<mapsto> \<lparr>fd = 7, event_mask = 0x001, handler_backend_data = None\<rparr>],
      signals = [3 \<mapsto> \<lparr>signo = 15, signal_backend_data = Some 6\<rparr>],
      sources = [8 \<mapsto> \<lparr>src_loop = 100, src_kind = Signal_source 15,
                          src_func = On_signal, src_data = 6\<rparr>],
      calls = [Wl_event_loop_add_signal 100 15 On_signal 6]\<rparr>"

text \<open>
  After \<open>add_fd\<close> and then a second \<open>aml_wl_loop_init\<close>, with the host loop 200: the
  second inner loop 11 has its backend state at address 9.
\<close>

definition world_reinit :: world where
  "world_reinit =
     \<lparr>wl_loop = Some 200,
      state_heap = [1 \<mapsto> \<lparr>aml = 10, loop = Some 100\<rparr>, 9 \<mapsto> \<lparr>aml = 11, loop = Some 200\<rparr>],
      data_heap = [4 \<mapsto> \<lparr>aml_obj = HandlerRef 2, state = 1, src = Some 5\<rparr>],
      handlers = [2 \<mapsto> \<lparr>fd = 7, event_mask = 0x001, handler_backend_data = Some 4\<rparr>],
      signals = [3 \<mapsto> \<lparr>signo = 15, signal_backend_data = None\<rparr>],
      sources = [5 \<mapsto> \<lparr>src_loop = 100, src_kind = Fd_source 7 0x01,
                          src_func = On_fd_event, src_data = 4\<rparr>],
      calls = [Wl_event_loop_add_fd 100 7 0x01 On_fd_event 4]\<rparr>"

section \<open>Properties of the mask translation\<close>

lemma single_bit_exp: "single_bit b \<Longrightarrow> \<exists>n<32. b = 2 ^ n"
  unfolding single_bit_def by (auto simp: push_bit_eq_mult)

lemma and_exp_word: "n < 32 \<Longrightarrow> (x :: u32) AND 2 ^ n = (if bit x n then 2 ^ n else 0)"
  by (rule bit_word_eqI) (auto simp: bit_and_iff bit_exp_iff)

lemma single_bit_cases: "single_bit b \<Longrightarrow> x AND b = 0 \<or> x AND b = b"
  by (drule single_bit_exp) (auto simp: and_exp_word)

lemma single_bit_nonzero: "single_bit b \<Longrightarrow> b \<noteq> 0"
  by (drule single_bit_exp) auto

lemma single_bit_disjoint:
  assumes "single_bit a" "single_bit b" "a \<noteq> b"
  shows "a AND b = 0"
proof -
  from assms(1) obtain m where m: "m < 32" "a = 2 ^ m" using single_bit_exp by blast
  from assms(2) obtain n where n: "n < 32" "b = 2 ^ n" using single_bit_exp by blast
  from assms(3) m n have "m \<noteq> n" by auto
  with m n show ?thesis by (simp add: and_exp_word bit_exp_iff)
qed

lemma single_bit_1: "single_bit 1"
  unfolding single_bit_def by (rule bexI [of _ 0]) simp_all

lemma single_bit_2: "single_bit 2"
  unfolding single_bit_def by (rule bexI [of _ 1]) simp_all

lemma single_bit_4: "single_bit 4"
  unfolding single_bit_def by (rule bexI [of _ 2]) simp_all

lemma valid_linux_wayland_bits: "valid_bits linux_wayland_bits"
  by (simp add: valid_bits_def linux_wayland_bits_def single_bit_1 single_bit_2 single_bit_4)

text \<open>Both functions as one expression each.\<close>

lemma from_poll_events_alt:
  "wl_backend_events_from_poll_events c x =
     (if x AND POLLIN c \<noteq> 0 then WL_EVENT_READABLE c else 0) OR
     (if x AND POLLOUT c \<noteq> 0 then WL_EVENT_WRITABLE c else 0)"
  by (simp add: wl_backend_events_from_poll_events_def Let_def)

lemma to_poll_events_alt:
  "wl_backend_events_to_poll_events c x =
     (if x AND WL_EVENT_READABLE c \<noteq> 0 then POLLIN c else 0) OR
     (if x AND WL_EVENT_WRITABLE c \<noteq> 0 then POLLOUT c else 0)"
  by (simp add: wl_backend_events_to_poll_events_def Let_def)

text \<open>
  Sending the pair of bits \<open>(a, b)\<close> to the pair \<open>(a', b')\<close> and back keeps exactly the
  bits \<open>a\<close> and \<open>b\<close> of the input.
\<close>

lemma translate_pair:
  fixes x a b a' b' :: u32
  assumes a: "single_bit a" and b: "single_bit b"
    and a': "single_bit a'" and b': "single_bit b'" and ne: "a' \<noteq> b'"
  defines "t \<equiv> (if x AND a \<noteq> 0 then a' else 0) OR (if x AND b \<noteq> 0 then b' else 0)"
  shows "(if t AND a' \<noteq> 0 then a else 0) OR (if t AND b' \<noteq> 0 then b else 0) = x AND (a OR b)"
proof -
  have d: "a' AND b' = 0" "b' AND a' = 0"
    using single_bit_disjoint [OF a' b' ne] by (simp_all add: and.commute)
  have nz: "a' \<noteq> 0" "b' \<noteq> 0"
    using a' b' by (simp_all add: single_bit_nonzero)
  have ta: "t AND a' \<noteq> 0 \<longleftrightarrow> x AND a \<noteq> 0"
    using d nz by (simp add: t_def bit.conj_disj_distrib2)
  have tb: "t AND b' \<noteq> 0 \<longleftrightarrow> x AND b \<noteq> 0"
    using d nz by (simp add: t_def bit.conj_disj_distrib2)
  have xa: "(if x AND a \<noteq> 0 then a else 0) = x AND a"
    using single_bit_cases [OF a, of x] by auto
  have xb: "(if x AND b \<noteq> 0 then b else 0) = x AND b"
    using single_bit_cases [OF b, of x] by auto
  show ?thesis
    by (simp only: ta tb xa xb bit.conj_disj_distrib)
qed

lemma from_poll_to_poll:
  "valid_bits c \<Longrightarrow>
   wl_backend_events_from_poll_events c (wl_backend_events_to_poll_events c x) =
     x AND (WL_EVENT_READABLE c OR WL_EVENT_WRITABLE c)"
  unfolding valid_bits_def from_poll_events_alt to_poll_events_alt
  by (intro translate_pair) simp_all

lemma to_poll_from_poll:
  "valid_bits c \<Longrightarrow>
   wl_backend_events_to_poll_events c (wl_backend_events_from_poll_events c x) =
     x AND (POLLIN c OR POLLOUT c)"
  unfolding valid_bits_def from_poll_events_alt to_poll_events_alt
  by (intro translate_pair) simp_all

lemma within_iff: "x AND NOT m = 0 \<longleftrightarrow> x AND m = x" for x m :: u32
  by (auto simp: bit_eq_iff bit_and_iff bit_not_iff)

lemma and_or_absorb: "(x AND (a OR b)) AND a = x AND a" "(x AND (a OR b)) AND b = x AND b"
  for x a b :: u32
  by (rule bit_word_eqI; auto simp: bit_and_iff bit_or_iff)+

lemma choice_within: "((if p then a else 0) OR (if q then b else 0)) AND NOT (a OR b) = 0"
  for a b :: u32
  by (rule bit_word_eqI) (auto simp: bit_and_iff bit_or_iff bit_not_iff)

lemma to_poll_readable:
  "valid_bits c \<Longrightarrow> wl_backend_events_to_poll_events c (WL_EVENT_READABLE c) = POLLIN c"
  by (simp add: to_poll_events_alt valid_bits_def single_bit_nonzero single_bit_disjoint)

text \<open>
  C1, as amended. With \<open>to_abstract = wl_backend_events_to_poll_events\<close> and
  \<open>to_host = wl_backend_events_from_poll_events\<close>, and the macros naming two different
  single bits on each side: for every mask \<open>x\<close> that contains only the host loop's
  readable and writable bits, \<open>to_host (to_abstract x) = x\<close>; and for every mask \<open>y\<close> that
  contains only the inner loop's readable and writable bits (\<open>POLLIN\<close>, \<open>POLLOUT\<close>),
  \<open>to_abstract (to_host y) = y\<close>.
\<close>

theorem mask_translation_inverse:
  "valid_bits c \<Longrightarrow>
   (x AND NOT (WL_EVENT_READABLE c OR WL_EVENT_WRITABLE c) = 0 \<longrightarrow>
      wl_backend_events_from_poll_events c (wl_backend_events_to_poll_events c x) = x) \<and>
   (y AND NOT (POLLIN c OR POLLOUT c) = 0 \<longrightarrow>
      wl_backend_events_to_poll_events c (wl_backend_events_from_poll_events c y) = y)"
proof (intro conjI impI)
  assume v: "valid_bits c"
  {
    assume "x AND NOT (WL_EVENT_READABLE c OR WL_EVENT_WRITABLE c) = 0"
    then have "x AND (WL_EVENT_READABLE c OR WL_EVENT_WRITABLE c) = x"
      by (simp only: within_iff)
    with v show "wl_backend_events_from_poll_events c (wl_backend_events_to_poll_events c x) = x"
      by (simp only: from_poll_to_poll)
  }
  {
    assume "y AND NOT (POLLIN c OR POLLOUT c) = 0"
    then have "y AND (POLLIN c OR POLLOUT c) = y"
      by (simp only: within_iff)
    with v show "wl_backend_events_to_poll_events c (wl_backend_events_from_poll_events c y) = y"
      by (simp only: to_poll_from_poll)
  }
qed

theorem mask_translation_inverse_witness:
  "valid_bits linux_wayland_bits \<and>
   3 AND NOT (WL_EVENT_READABLE linux_wayland_bits OR WL_EVENT_WRITABLE linux_wayland_bits) = 0 \<and>
   wl_backend_events_from_poll_events linux_wayland_bits
     (wl_backend_events_to_poll_events linux_wayland_bits 3) = 3 \<and>
   5 AND NOT (POLLIN linux_wayland_bits OR POLLOUT linux_wayland_bits) = 0 \<and>
   wl_backend_events_to_poll_events linux_wayland_bits
     (wl_backend_events_from_poll_events linux_wayland_bits 5) = 5"
proof -
  have x: "3 AND NOT (WL_EVENT_READABLE linux_wayland_bits OR
             WL_EVENT_WRITABLE linux_wayland_bits) = 0"
    by (simp add: linux_wayland_bits_def)
  have y: "5 AND NOT (POLLIN linux_wayland_bits OR POLLOUT linux_wayland_bits) = 0"
    by (simp add: linux_wayland_bits_def)
  show ?thesis
    using mask_translation_inverse [OF valid_linux_wayland_bits, of 3 5] x y
      valid_linux_wayland_bits
    by simp
qed

text \<open>
  C1 as written takes \<open>y\<close> from the host loop's bits. On Linux with libwayland the host
  loop's writable bit is 2, which is neither \<open>POLLIN\<close> (1) nor \<open>POLLOUT\<close> (4):
  \<open>to_host\<close> sends it to 0, and \<open>to_abstract\<close> sends 0 to 0.
\<close>

theorem mask_translation_host_bits_counterexample:
  "valid_bits linux_wayland_bits \<and>
   WL_EVENT_WRITABLE linux_wayland_bits
     AND NOT (WL_EVENT_READABLE linux_wayland_bits OR WL_EVENT_WRITABLE linux_wayland_bits) = 0 \<and>
   wl_backend_events_to_poll_events linux_wayland_bits
     (wl_backend_events_from_poll_events linux_wayland_bits
        (WL_EVENT_WRITABLE linux_wayland_bits)) \<noteq> WL_EVENT_WRITABLE linux_wayland_bits"
  by (simp add: valid_linux_wayland_bits)
    (simp add: linux_wayland_bits_def wl_backend_events_to_poll_events_def
      wl_backend_events_from_poll_events_def)

text \<open>
  C8. In both directions the bits outside the two defined pairs are ignored: the result
  for \<open>x\<close> is the result for \<open>x\<close> restricted to the two bits the function reads, and the
  result has no bit outside the two bits the function writes. Both functions are total
  on \<open>uint32_t\<close> and have no error result.
\<close>

theorem undefined_bits_ignored:
  "wl_backend_events_to_poll_events c x =
     wl_backend_events_to_poll_events c (x AND (WL_EVENT_READABLE c OR WL_EVENT_WRITABLE c)) \<and>
   wl_backend_events_from_poll_events c x =
     wl_backend_events_from_poll_events c (x AND (POLLIN c OR POLLOUT c)) \<and>
   wl_backend_events_to_poll_events c x AND NOT (POLLIN c OR POLLOUT c) = 0 \<and>
   wl_backend_events_from_poll_events c x
     AND NOT (WL_EVENT_READABLE c OR WL_EVENT_WRITABLE c) = 0"
  by (simp only: to_poll_events_alt from_poll_events_alt and_or_absorb choice_within)

section \<open>Properties of the dispatch relay\<close>

text \<open>
  C5. Invoked with host readiness bits \<open>m\<close> and a live entry \<open>userdata\<close> whose object is
  the handler \<open>handler\<close>, the fd relay makes exactly two calls into the inner loop, in this
  order: one \<open>aml_emit\<close> on that handler with mask \<open>to_abstract m\<close>
  (\<open>wl_backend_events_to_poll_events\<close>), then one \<open>aml_dispatch\<close>; it makes no other
  call and returns 0. In particular the host loop's readable bit is emitted as
  \<open>POLLIN\<close>.
\<close>

theorem fd_relay_emits_once_then_dispatches:
  "data_heap w userdata = Some d \<Longrightarrow> aml_obj d = HandlerRef handler \<Longrightarrow>
   state_heap w (state d) = Some s \<Longrightarrow>
   wl_backend_on_fd_event c f m userdata w =
     Inr (0, w\<lparr>calls := calls w @
                  [Aml_emit (aml s) (HandlerRef handler) (wl_backend_events_to_poll_events c m),
                   Aml_dispatch (aml s)]\<rparr>) \<and>
   (valid_bits c \<longrightarrow> wl_backend_events_to_poll_events c (WL_EVENT_READABLE c) = POLLIN c)"
  by (simp add: wl_backend_on_fd_event_def data_state_aml_def aml_emit_def aml_dispatch_def
      to_poll_readable)

text \<open>
  The scenario of the specification: file descriptor 7 is registered with interest
  readable, and the host loop reports its readable bit on it.
\<close>

theorem fd_relay_emits_once_then_dispatches_witness:
  "data_heap world_fd_added 4 = Some \<lparr>aml_obj = HandlerRef 2, state = 1, src = Some 5\<rparr> \<and>
   state_heap world_fd_added 1 = Some \<lparr>aml = 10, loop = Some 100\<rparr> \<and>
   valid_bits linux_wayland_bits \<and>
   wl_backend_on_fd_event linux_wayland_bits 7 (WL_EVENT_READABLE linux_wayland_bits) 4
       world_fd_added =
     Inr (0, world_fd_added\<lparr>calls := calls world_fd_added @
               [Aml_emit 10 (HandlerRef 2) (POLLIN linux_wayland_bits), Aml_dispatch 10]\<rparr>)"
proof -
  have d: "data_heap world_fd_added 4 = Some \<lparr>aml_obj = HandlerRef 2, state = 1, src = Some 5\<rparr>"
    by (simp add: world_fd_added_def)
  have s: "state_heap world_fd_added 1 = Some \<lparr>aml = 10, loop = Some 100\<rparr>"
    by (simp add: world_fd_added_def)
  show ?thesis
    using fd_relay_emits_once_then_dispatches
      [of world_fd_added 4 "\<lparr>aml_obj = HandlerRef 2, state = 1, src = Some 5\<rparr>" 2
          "\<lparr>aml = 10, loop = Some 100\<rparr>" linux_wayland_bits 7
          "WL_EVENT_READABLE linux_wayland_bits"]
      d s valid_linux_wayland_bits
    by simp
qed

text \<open>
  C7. Invoked for a delivered signal with a live entry \<open>userdata\<close> whose object is the
  signal watcher \<open>sig\<close>, the signal relay makes exactly two calls into the inner loop, in
  this order: one \<open>aml_emit\<close> on that watcher with mask 0, then one \<open>aml_dispatch\<close>; it
  makes no other call and returns 0.
\<close>

theorem signal_relay_emits_zero_then_dispatches:
  "data_heap w userdata = Some d \<Longrightarrow> aml_obj d = SignalRef sig \<Longrightarrow>
   state_heap w (state d) = Some s \<Longrightarrow>
   wl_backend_on_signal n userdata w =
     Inr (0, w\<lparr>calls := calls w @ [Aml_emit (aml s) (SignalRef sig) 0, Aml_dispatch (aml s)]\<rparr>)"
  by (simp add: wl_backend_on_signal_def data_state_aml_def aml_emit_def aml_dispatch_def)

theorem signal_relay_emits_zero_then_dispatches_witness:
  "data_heap world_signal_added 6 = Some \<lparr>aml_obj = SignalRef 3, state = 1, src = Some 8\<rparr> \<and>
   state_heap world_signal_added 1 = Some \<lparr>aml = 10, loop = Some 100\<rparr> \<and>
   wl_backend_on_signal 15 6 world_signal_added =
     Inr (0, world_signal_added\<lparr>calls := calls world_signal_added @
               [Aml_emit 10 (SignalRef 3) 0, Aml_dispatch 10]\<rparr>)"
proof -
  have d: "data_heap world_signal_added 6 =
             Some \<lparr>aml_obj = SignalRef 3, state = 1, src = Some 8\<rparr>"
    by (simp add: world_signal_added_def)
  have s: "state_heap world_signal_added 1 = Some \<lparr>aml = 10, loop = Some 100\<rparr>"
    by (simp add: world_signal_added_def)
  show ?thesis
    using signal_relay_emits_zero_then_dispatches
      [of world_signal_added 6 "\<lparr>aml_obj = SignalRef 3, state = 1, src = Some 8\<rparr>" 3
          "\<lparr>aml = 10, loop = Some 100\<rparr>" 15]
      d s
    by simp
qed

section \<open>Properties of the source lifecycle\<close>

text \<open>
  C9. When \<open>calloc\<close> returns the entry \<open>data\<close> and the host loop returns the registration
  \<open>s\<close>, \<open>add_fd\<close> on a live handler and a usable state returns 0. It has made one call,
  \<open>wl_event_loop_add_fd\<close> on the state's loop with the handler's file descriptor, the
  translated mask, the fd relay and the entry as context. The entry holds the address of
  the handler, the address of the state and the handle \<open>s\<close>; the handler's
  backend-private pointer is the entry. The handler and the state themselves are
  referenced by address, not copied.
\<close>

theorem add_fd_success:
  "handlers w handler = Some h \<Longrightarrow> state_heap w st = Some self \<Longrightarrow> loop self = Some l \<Longrightarrow>
   wl_backend_add_fd c (Some data) (Some s) st handler w =
     Inr (0, w\<lparr>calls := calls w @
                  [Wl_event_loop_add_fd l (fd h)
                     (wl_backend_events_from_poll_events c (event_mask h)) On_fd_event data],
               sources := (sources w)(s \<mapsto>
                  \<lparr>src_loop = l,
                   src_kind = Fd_source (fd h) (wl_backend_events_from_poll_events c (event_mask h)),
                   src_func = On_fd_event, src_data = data\<rparr>),
               data_heap := (data_heap w)(data \<mapsto>
                  \<lparr>aml_obj = HandlerRef handler, state = st, src = Some s\<rparr>),
               handlers := (handlers w)(handler \<mapsto> h\<lparr>handler_backend_data := Some data\<rparr>)\<rparr>)"
  by (simp add: wl_backend_add_fd_def event_source_data_new_def wl_event_loop_add_fd_def Let_def)

theorem add_fd_success_witness:
  "handlers world0 2 = Some \<lparr>fd = 7, event_mask = 1, handler_backend_data = None\<rparr> \<and>
   state_heap world0 1 = Some \<lparr>aml = 10, loop = Some 100\<rparr> \<and>
   wl_backend_add_fd linux_wayland_bits (Some 4) (Some 5) 1 2 world0 = Inr (0, world_fd_added)"
proof -
  have h: "handlers world0 2 = Some \<lparr>fd = 7, event_mask = 1, handler_backend_data = None\<rparr>"
    by (simp add: world0_def)
  have s: "state_heap world0 1 = Some \<lparr>aml = 10, loop = Some 100\<rparr>"
    by (simp add: world0_def)
  have m: "wl_backend_events_from_poll_events linux_wayland_bits 1 = 1"
    by (simp add: wl_backend_events_from_poll_events_def linux_wayland_bits_def)
  show ?thesis
    using add_fd_success [OF h s, of 100 linux_wayland_bits 4 5] h s
    by (simp add: m) (simp add: world0_def world_fd_added_def)
qed



text \<open>
  C2, as amended. On a handler whose backend-private pointer is an attached entry,
  \<open>del_fd\<close> calls \<open>wl_event_source_remove\<close> on the entry's registration, frees the entry
  and returns 0; it does not write to the handler, whose backend-private pointer still
  holds the address of the freed entry. So \<open>add_fd\<close> followed by \<open>del_fd\<close> on the same
  handler leaves the entries and the registrations as they were before, and the
  handler's backend-private pointer set to the entry's former address.
\<close>

theorem del_fd_unregisters_and_frees:
  "(handlers w handler = Some h \<and> handler_backend_data h = Some data \<and>
    data_heap w data = Some d \<and> src d = Some s \<and> sources w s = Some r \<longrightarrow>
      wl_backend_del_fd rm_res st handler w =
        Inr (0, w\<lparr>calls := calls w @ [Wl_event_source_remove s],
                  sources := (sources w)(s := None),
                  data_heap := (data_heap w)(data := None)\<rparr>)) \<and>
   (handlers w0 handler0 = Some h0 \<and> state_heap w0 st0 = Some self \<and> loop self = Some l \<and>
    data_heap w0 data0 = None \<and> sources w0 s0 = None \<longrightarrow>
      run c [Op_add_fd (Some data0) (Some s0) st0 handler0, Op_del_fd rm_res0 st0 handler0] w0 =
        Inr (w0\<lparr>calls := calls w0 @
                  [Wl_event_loop_add_fd l (fd h0)
                     (wl_backend_events_from_poll_events c (event_mask h0)) On_fd_event data0,
                   Wl_event_source_remove s0],
               handlers := (handlers w0)(handler0 \<mapsto>
                  h0\<lparr>handler_backend_data := Some data0\<rparr>)\<rparr>))"
  by (auto simp: wl_backend_del_fd_def wl_event_source_remove_def free_data_def after_def
      wl_backend_add_fd_def event_source_data_new_def wl_event_loop_add_fd_def Let_def
      fun_upd_idem)

theorem del_fd_unregisters_and_frees_witness:
  "handlers world_fd_added 2 = Some \<lparr>fd = 7, event_mask = 1, handler_backend_data = Some 4\<rparr> \<and>
   data_heap world_fd_added 4 = Some \<lparr>aml_obj = HandlerRef 2, state = 1, src = Some 5\<rparr> \<and>
   sources world_fd_added 5 =
     Some \<lparr>src_loop = 100, src_kind = Fd_source 7 1, src_func = On_fd_event, src_data = 4\<rparr> \<and>
   wl_backend_del_fd 0 1 2 world_fd_added = Inr (0, world_fd_deleted) \<and>
   handlers world0 2 = Some \<lparr>fd = 7, event_mask = 1, handler_backend_data = None\<rparr> \<and>
   state_heap world0 1 = Some \<lparr>aml = 10, loop = Some 100\<rparr> \<and>
   data_heap world0 4 = None \<and> sources world0 5 = None \<and>
   run linux_wayland_bits [Op_add_fd (Some 4) (Some 5) 1 2, Op_del_fd 0 1 2] world0 =
     Inr (world0\<lparr>calls := [Wl_event_loop_add_fd 100 7 1 On_fd_event 4, Wl_event_source_remove 5],
                handlers := [2 \<mapsto> \<lparr>fd = 7, event_mask = 1, handler_backend_data = Some 4\<rparr>]\<rparr>)"
proof -
  have h: "handlers world_fd_added 2 =
             Some \<lparr>fd = 7, event_mask = 1, handler_backend_data = Some 4\<rparr>"
    by (simp add: world_fd_added_def)
  have d: "data_heap world_fd_added 4 = Some \<lparr>aml_obj = HandlerRef 2, state = 1, src = Some 5\<rparr>"
    by (simp add: world_fd_added_def)
  have r: "sources world_fd_added 5 =
             Some \<lparr>src_loop = 100, src_kind = Fd_source 7 1, src_func = On_fd_event,
                   src_data = 4\<rparr>"
    by (simp add: world_fd_added_def)
  have e: "world_fd_added\<lparr>calls := calls world_fd_added @ [Wl_event_source_remove 5],
             sources := (sources world_fd_added)(5 := None),
             data_heap := (data_heap world_fd_added)(4 := None)\<rparr> = world_fd_deleted"
    by (simp add: world_fd_added_def world_fd_deleted_def)
  have h0: "handlers world0 2 = Some \<lparr>fd = 7, event_mask = 1, handler_backend_data = None\<rparr>"
    by (simp add: world0_def)
  have s0: "state_heap world0 1 = Some \<lparr>aml = 10, loop = Some 100\<rparr>"
    by (simp add: world0_def)
  have f0: "data_heap world0 4 = None" "sources world0 5 = None"
    by (simp_all add: world0_def)
  have c0: "calls world0 = []" "handlers world0 =
      [2 \<mapsto> \<lparr>fd = 7, event_mask = 1, handler_backend_data = None\<rparr>]"
    by (simp_all add: world0_def)
  have m: "wl_backend_events_from_poll_events linux_wayland_bits 1 = 1"
    by (simp add: wl_backend_events_from_poll_events_def linux_wayland_bits_def)
  show ?thesis
    using del_fd_unregisters_and_frees
      [of world_fd_added 2 "\<lparr>fd = 7, event_mask = 1, handler_backend_data = Some 4\<rparr>" 4
          "\<lparr>aml_obj = HandlerRef 2, state = 1, src = Some 5\<rparr>" 5
          "\<lparr>src_loop = 100, src_kind = Fd_source 7 1, src_func = On_fd_event, src_data = 4\<rparr>"
          0 1 world0 2 "\<lparr>fd = 7, event_mask = 1, handler_backend_data = None\<rparr>" 1
          "\<lparr>aml = 10, loop = Some 100\<rparr>" 100 4 5 linux_wayland_bits 0]
      h d r h0 s0 f0
    by (simp add: e m c0)
qed

text \<open>
  C2 as written has the backend-private pointer cleared. After \<open>add_fd\<close> and \<open>del_fd\<close> on
  the handler at address 2 no entry is live, and the handler's backend-private pointer
  is still 4, the address of the freed entry.
\<close>

theorem del_fd_slot_counterexample:
  "run linux_wayland_bits [Op_add_fd (Some 4) (Some 5) 1 2, Op_del_fd 0 1 2] world0 =
     Inr world_fd_deleted \<and>
   data_heap world_fd_deleted 4 = None \<and>
   handlers world_fd_deleted 2 =
     Some \<lparr>fd = 7, event_mask = 1, handler_backend_data = Some 4\<rparr>"
  by (simp add: world0_def world_fd_deleted_def after_def
      wl_backend_add_fd_def event_source_data_new_def wl_event_loop_add_fd_def
      wl_backend_del_fd_def wl_event_source_remove_def free_data_def
      linux_wayland_bits_def wl_backend_events_from_poll_events_def)

text \<open>
  C6, as amended. On a handler whose backend-private pointer is an attached entry,
  \<open>mod_fd\<close> reads the handler's current interest mask, translates it and makes one call,
  \<open>wl_event_source_fd_update\<close> on the entry's registration with the translated mask. It
  allocates and frees nothing, writes to no handler, and neither removes nor adds a
  registration. When the host loop accepts the update (status 0), the mask it has
  recorded for the registration is \<open>to_host\<close> of the handler's mask. So after \<open>add_fd\<close>,
  a change of the handler's interest mask to \<open>m'\<close> and a \<open>mod_fd\<close> whose update the host
  loop accepts, the recorded mask is \<open>to_host m'\<close>.
\<close>

theorem mod_fd_updates_in_place:
  "(handlers w handler = Some h \<and> handler_backend_data h = Some data \<and>
    data_heap w data = Some d \<and> src d = Some s \<and> sources w s = Some r \<longrightarrow>
      (\<exists>w'. wl_backend_mod_fd c upd_res st handler w = Inr (0, w') \<and>
            calls w' = calls w @
              [Wl_event_source_fd_update s (wl_backend_events_from_poll_events c (event_mask h))] \<and>
            data_heap w' = data_heap w \<and> handlers w' = handlers w \<and>
            dom (sources w') = dom (sources w) \<and>
            (upd_res = 0 \<and> src_kind r = Fd_source f m \<longrightarrow>
               recorded_mask w' s =
                 Some (wl_backend_events_from_poll_events c (event_mask h))))) \<and>
   (handlers w0 handler0 = Some h0 \<and> state_heap w0 st0 = Some self \<and> loop self = Some l \<longrightarrow>
      (\<exists>w1 w2. wl_backend_add_fd c (Some data0) (Some s0) st0 handler0 w0 = Inr (0, w1) \<and>
               wl_backend_mod_fd c 0 st0 handler0 (set_event_mask handler0 m' w1) = Inr (0, w2) \<and>
               recorded_mask w2 s0 = Some (wl_backend_events_from_poll_events c m') \<and>
               data_heap w2 = data_heap w1 \<and>
               calls w2 = calls w1 @
                 [Wl_event_source_fd_update s0 (wl_backend_events_from_poll_events c m')]))"
  by (auto simp: wl_backend_mod_fd_def wl_event_source_fd_update_def Let_def recorded_mask_def
      set_event_mask_def wl_backend_add_fd_def event_source_data_new_def
      wl_event_loop_add_fd_def)

text \<open>
  The handler for file descriptor 7 is registered with interest \<open>POLLIN\<close>; its interest
  becomes \<open>POLLOUT\<close>, and after \<open>mod_fd\<close> the host loop has recorded its writable bit.
\<close>

theorem mod_fd_updates_in_place_witness:
  "handlers (set_event_mask 2 4 world_fd_added) 2 =
     Some \<lparr>fd = 7, event_mask = 4, handler_backend_data = Some 4\<rparr> \<and>
   data_heap (set_event_mask 2 4 world_fd_added) 4 =
     Some \<lparr>aml_obj = HandlerRef 2, state = 1, src = Some 5\<rparr> \<and>
   sources (set_event_mask 2 4 world_fd_added) 5 =
     Some \<lparr>src_loop = 100, src_kind = Fd_source 7 1, src_func = On_fd_event, src_data = 4\<rparr> \<and>
   (\<exists>w'. wl_backend_mod_fd linux_wayland_bits 0 1 2 (set_event_mask 2 4 world_fd_added) =
            Inr (0, w') \<and>
         calls w' = calls world_fd_added @ [Wl_event_source_fd_update 5 2] \<and>
         data_heap w' = data_heap world_fd_added \<and>
         recorded_mask w' 5 = Some 2) \<and>
   handlers world0 2 = Some \<lparr>fd = 7, event_mask = 1, handler_backend_data = None\<rparr> \<and>
   state_heap world0 1 = Some \<lparr>aml = 10, loop = Some 100\<rparr> \<and>
   (\<exists>w1 w2. wl_backend_add_fd linux_wayland_bits (Some 4) (Some 5) 1 2 world0 = Inr (0, w1) \<and>
            wl_backend_mod_fd linux_wayland_bits 0 1 2 (set_event_mask 2 4 w1) = Inr (0, w2) \<and>
            recorded_mask w2 5 = Some 2)"
proof -
  let ?w = "set_event_mask 2 4 world_fd_added"
  have h: "handlers ?w 2 = Some \<lparr>fd = 7, event_mask = 4, handler_backend_data = Some 4\<rparr>"
    by (simp add: world_fd_added_def set_event_mask_def)
  have d: "data_heap ?w 4 = Some \<lparr>aml_obj = HandlerRef 2, state = 1, src = Some 5\<rparr>"
    by (simp add: world_fd_added_def set_event_mask_def)
  have r: "sources ?w 5 =
             Some \<lparr>src_loop = 100, src_kind = Fd_source 7 1, src_func = On_fd_event,
                   src_data = 4\<rparr>"
    by (simp add: world_fd_added_def set_event_mask_def)
  have k: "calls ?w = calls world_fd_added" "data_heap ?w = data_heap world_fd_added"
    by (simp_all add: world_fd_added_def set_event_mask_def)
  have h0: "handlers world0 2 = Some \<lparr>fd = 7, event_mask = 1, handler_backend_data = None\<rparr>"
    by (simp add: world0_def)
  have s0: "state_heap world0 1 = Some \<lparr>aml = 10, loop = Some 100\<rparr>"
    by (simp add: world0_def)
  have m: "wl_backend_events_from_poll_events linux_wayland_bits 4 = 2"
    by (simp add: wl_backend_events_from_poll_events_def linux_wayland_bits_def)
  show ?thesis
    using mod_fd_updates_in_place
      [of ?w 2 "\<lparr>fd = 7, event_mask = 4, handler_backend_data = Some 4\<rparr>" 4
          "\<lparr>aml_obj = HandlerRef 2, state = 1, src = Some 5\<rparr>" 5
          "\<lparr>src_loop = 100, src_kind = Fd_source 7 1, src_func = On_fd_event, src_data = 4\<rparr>"
          linux_wayland_bits 0 1 7 1 world0 2
          "\<lparr>fd = 7, event_mask = 1, handler_backend_data = None\<rparr>" 1
          "\<lparr>aml = 10, loop = Some 100\<rparr>" 100 4 5 4]
      h d r h0 s0
    by (simp add: m k) blast
qed

text \<open>
  C6 as written has the recorded mask equal to \<open>to_host\<close> of the new mask after every
  \<open>mod_fd\<close>. The handler for file descriptor 7 is registered with interest \<open>POLLIN\<close> and
  its interest becomes \<open>POLLOUT\<close>; the host loop's \<open>wl_event_source_fd_update\<close> returns
  -1. \<open>mod_fd\<close> returns 0, and the host loop has still recorded its readable bit, not
  its writable bit.
\<close>

theorem mod_fd_host_rejects_counterexample:
  "wl_backend_add_fd linux_wayland_bits (Some 4) (Some 5) 1 2 world0 = Inr (0, world_fd_added) \<and>
   wl_backend_mod_fd linux_wayland_bits (- 1) 1 2
       (set_event_mask 2 (POLLOUT linux_wayland_bits) world_fd_added) =
     Inr (0, world_fd_update_rejected) \<and>
   recorded_mask world_fd_update_rejected 5 = Some (WL_EVENT_READABLE linux_wayland_bits) \<and>
   wl_backend_events_from_poll_events linux_wayland_bits (POLLOUT linux_wayland_bits) =
     WL_EVENT_WRITABLE linux_wayland_bits \<and>
   WL_EVENT_READABLE linux_wayland_bits \<noteq> WL_EVENT_WRITABLE linux_wayland_bits"
  by (simp add: world0_def world_fd_added_def world_fd_update_rejected_def set_event_mask_def
      wl_backend_add_fd_def event_source_data_new_def wl_event_loop_add_fd_def
      wl_backend_mod_fd_def wl_event_source_fd_update_def recorded_mask_def
      linux_wayland_bits_def wl_backend_events_from_poll_events_def)

text \<open>The status of each lifecycle function when its pointers are valid.\<close>

lemma add_fd_host_failure:
  "handlers w handler \<noteq> None \<Longrightarrow> state_ok w st \<Longrightarrow>
   status (wl_backend_add_fd c calloc_res None st handler w) = Some (- 1)"
  by (cases calloc_res)
    (auto simp: status_def state_ok_def wl_backend_add_fd_def event_source_data_new_def
      wl_event_loop_add_fd_def free_data_def Let_def split: option.splits)

lemma add_signal_host_failure:
  "signals w sig \<noteq> None \<Longrightarrow> state_ok w st \<Longrightarrow>
   status (wl_backend_add_signal calloc_res None st sig w) = Some (- 1)"
  by (cases calloc_res)
    (auto simp: status_def state_ok_def wl_backend_add_signal_def event_source_data_new_def
      wl_event_loop_add_signal_def free_data_def Let_def split: option.splits)

lemma mod_fd_status:
  "fd_attached w handler \<Longrightarrow> status (wl_backend_mod_fd c upd_res st handler w) = Some 0"
  by (auto simp: status_def fd_attached_def attached_def wl_backend_mod_fd_def
      wl_event_source_fd_update_def Let_def split: option.splits)

lemma del_fd_status:
  "fd_attached w handler \<Longrightarrow> status (wl_backend_del_fd rm_res st handler w) = Some 0"
  by (auto simp: status_def fd_attached_def attached_def wl_backend_del_fd_def
      wl_event_source_remove_def free_data_def split: option.splits)

lemma del_signal_status:
  "signal_attached w sig \<Longrightarrow> status (wl_backend_del_signal rm_res st sig w) = Some 0"
  by (auto simp: status_def signal_attached_def attached_def wl_backend_del_signal_def
      wl_event_source_remove_def free_data_def split: option.splits)

text \<open>
  C4, as amended. \<open>add_fd\<close> and \<open>add_signal\<close> return -1 when the host loop's
  registration primitive returns NULL (and when \<open>calloc\<close> does). \<open>mod_fd\<close>, \<open>del_fd\<close>
  and \<open>del_signal\<close> do not look at the status that \<open>wl_event_source_fd_update\<close> or
  \<open>wl_event_source_remove\<close> returns: they return 0 whatever the host loop reports.
\<close>

theorem host_failure_status:
  "(handlers w handler \<noteq> None \<and> state_ok w st \<longrightarrow>
      status (wl_backend_add_fd c calloc_res None st handler w) = Some (- 1)) \<and>
   (signals w sig \<noteq> None \<and> state_ok w st \<longrightarrow>
      status (wl_backend_add_signal calloc_res None st sig w) = Some (- 1)) \<and>
   (fd_attached w1 handler1 \<longrightarrow>
      status (wl_backend_mod_fd c upd_res st1 handler1 w1) = Some 0 \<and>
      status (wl_backend_del_fd rm_res st1 handler1 w1) = Some 0) \<and>
   (signal_attached w2 sig2 \<longrightarrow>
      status (wl_backend_del_signal rm_res st2 sig2 w2) = Some 0)"
  by (simp add: add_fd_host_failure add_signal_host_failure mod_fd_status del_fd_status
      del_signal_status)

theorem host_failure_status_witness:
  "handlers world0 2 \<noteq> None \<and> signals world0 3 \<noteq> None \<and> state_ok world0 1 \<and>
   status (wl_backend_add_fd linux_wayland_bits (Some 4) None 1 2 world0) = Some (- 1) \<and>
   status (wl_backend_add_signal (Some 4) None 1 3 world0) = Some (- 1) \<and>
   fd_attached world_fd_added 2 \<and>
   status (wl_backend_mod_fd linux_wayland_bits (- 1) 1 2 world_fd_added) = Some 0 \<and>
   status (wl_backend_del_fd (- 1) 1 2 world_fd_added) = Some 0 \<and>
   signal_attached world_signal_added 3 \<and>
   status (wl_backend_del_signal (- 1) 1 3 world_signal_added) = Some 0"
proof -
  have a: "handlers world0 2 \<noteq> None" "signals world0 3 \<noteq> None" "state_ok world0 1"
    by (simp_all add: world0_def state_ok_def)
  have f: "fd_attached world_fd_added 2"
    by (simp add: world_fd_added_def fd_attached_def attached_def)
  have g: "signal_attached world_signal_added 3"
    by (simp add: world_signal_added_def signal_attached_def attached_def)
  show ?thesis
    using host_failure_status
      [of world0 2 1 linux_wayland_bits "Some 4" 3 world_fd_added 2 "- 1" 1 "- 1"
          world_signal_added 3 1]
      a f g
    by simp
qed

text \<open>
  C4 as written has every lifecycle operation return an error when its host primitive
  fails. With the handler for file descriptor 7 registered, the host loop's
  \<open>wl_event_source_fd_update\<close> returns -1 and leaves the recorded mask as it was;
  \<open>mod_fd\<close> returns 0.
\<close>

theorem mod_fd_swallows_failure_counterexample:
  "fd_attached (set_event_mask 2 4 world_fd_added) 2 \<and>
   wl_backend_mod_fd linux_wayland_bits (- 1) 1 2 (set_event_mask 2 4 world_fd_added) =
     Inr (0, set_event_mask 2 4 world_fd_added
               \<lparr>calls := [Wl_event_loop_add_fd 100 7 1 On_fd_event 4,
                          Wl_event_source_fd_update 5 2]\<rparr>) \<and>
   recorded_mask (set_event_mask 2 4 world_fd_added
               \<lparr>calls := [Wl_event_loop_add_fd 100 7 1 On_fd_event 4,
                          Wl_event_source_fd_update 5 2]\<rparr>) 5 = Some 1"
  by (simp add: world_fd_added_def set_event_mask_def fd_attached_def attached_def
      wl_backend_mod_fd_def wl_event_source_fd_update_def recorded_mask_def
      linux_wayland_bits_def wl_backend_events_from_poll_events_def)

section \<open>Properties of the backend state\<close>

lemma after_wl_loop:
  "after r = Inr w' \<Longrightarrow> \<exists>i. r = Inr (i, w')"
  by (auto simp: after_def split: sum.splits)

lemma add_fd_wl_loop:
  "wl_backend_add_fd c calloc_res add_res st handler w = Inr (i, w') \<Longrightarrow> wl_loop w' = wl_loop w"
  by (auto simp: wl_backend_add_fd_def event_source_data_new_def wl_event_loop_add_fd_def
      free_data_def Let_def split: option.splits)

lemma add_signal_wl_loop:
  "wl_backend_add_signal calloc_res add_res st sig w = Inr (i, w') \<Longrightarrow> wl_loop w' = wl_loop w"
  by (auto simp: wl_backend_add_signal_def event_source_data_new_def
      wl_event_loop_add_signal_def free_data_def Let_def split: option.splits)

lemma mod_fd_wl_loop:
  "wl_backend_mod_fd c upd_res st handler w = Inr (i, w') \<Longrightarrow> wl_loop w' = wl_loop w"
  by (auto simp: wl_backend_mod_fd_def wl_event_source_fd_update_def Let_def
      split: option.splits if_splits)

lemma del_fd_wl_loop:
  "wl_backend_del_fd rm_res st handler w = Inr (i, w') \<Longrightarrow> wl_loop w' = wl_loop w"
  by (auto simp: wl_backend_del_fd_def wl_event_source_remove_def free_data_def
      split: option.splits)

lemma del_signal_wl_loop:
  "wl_backend_del_signal rm_res st sig w = Inr (i, w') \<Longrightarrow> wl_loop w' = wl_loop w"
  by (auto simp: wl_backend_del_signal_def wl_event_source_remove_def free_data_def
      split: option.splits)

lemma on_fd_event_wl_loop:
  "wl_backend_on_fd_event c f m userdata w = Inr (i, w') \<Longrightarrow> wl_loop w' = wl_loop w"
  by (auto simp: wl_backend_on_fd_event_def data_state_aml_def aml_emit_def aml_dispatch_def
      Let_def split: option.splits sum.splits)

lemma on_signal_wl_loop:
  "wl_backend_on_signal n userdata w = Inr (i, w') \<Longrightarrow> wl_loop w' = wl_loop w"
  by (auto simp: wl_backend_on_signal_def data_state_aml_def aml_emit_def aml_dispatch_def
      Let_def split: option.splits sum.splits)

lemma new_state_wl_loop: "wl_loop (snd (wl_backend_new_state calloc_res a w)) = wl_loop w"
  by (simp add: wl_backend_new_state_def split: option.splits)

lemma init_wl_loop: "wl_loop (snd (aml_wl_loop_init aml_res calloc_res lp w)) = lp"
  by (simp add: aml_wl_loop_init_def aml_new_def wl_backend_new_state_def split: option.splits)

text \<open>Only \<open>aml_wl_loop_init\<close> writes \<open>wl_loop\<close>.\<close>

lemma step_wl_loop:
  "\<not> is_init x \<Longrightarrow> step c x w = Inr w' \<Longrightarrow> wl_loop w' = wl_loop w"
proof (cases x)
  case (Op_add_fd calloc_res add_res st handler)
  then show "step c x w = Inr w' \<Longrightarrow> wl_loop w' = wl_loop w"
    by (auto dest!: after_wl_loop dest: add_fd_wl_loop)
next
  case (Op_mod_fd upd_res st handler)
  then show "step c x w = Inr w' \<Longrightarrow> wl_loop w' = wl_loop w"
    by (auto dest!: after_wl_loop dest: mod_fd_wl_loop)
next
  case (Op_del_fd rm_res st handler)
  then show "step c x w = Inr w' \<Longrightarrow> wl_loop w' = wl_loop w"
    by (auto dest!: after_wl_loop dest: del_fd_wl_loop)
next
  case (Op_add_signal calloc_res add_res st sig)
  then show "step c x w = Inr w' \<Longrightarrow> wl_loop w' = wl_loop w"
    by (auto dest!: after_wl_loop dest: add_signal_wl_loop)
next
  case (Op_del_signal rm_res st sig)
  then show "step c x w = Inr w' \<Longrightarrow> wl_loop w' = wl_loop w"
    by (auto dest!: after_wl_loop dest: del_signal_wl_loop)
next
  case (Op_fd_event f m userdata)
  then show "step c x w = Inr w' \<Longrightarrow> wl_loop w' = wl_loop w"
    by (auto dest!: after_wl_loop dest: on_fd_event_wl_loop)
next
  case (Op_signal n userdata)
  then show "step c x w = Inr w' \<Longrightarrow> wl_loop w' = wl_loop w"
    by (auto dest!: after_wl_loop dest: on_signal_wl_loop)
qed (auto simp: new_state_wl_loop wl_backend_del_state_def wl_backend_exit_def)

lemma run_wl_loop:
  "\<not> list_ex is_init xs \<Longrightarrow> run c xs w = Inr w' \<Longrightarrow> wl_loop w' = wl_loop w"
proof (induction xs arbitrary: w)
  case Nil
  then show ?case by simp
next
  case (Cons x xs)
  from Cons.prems obtain w1 where w1: "step c x w = Inr w1" and r: "run c xs w1 = Inr w'"
    by (auto split: sum.splits)
  from Cons.prems w1 have "wl_loop w1 = wl_loop w"
    by (auto dest: step_wl_loop)
  moreover from Cons.prems r have "wl_loop w' = wl_loop w1"
    by (auto intro: Cons.IH)
  ultimately show ?case by simp
qed

lemma run_append:
  "run c (xs @ ys) w = (case run c xs w of Inl e \<Rightarrow> Inl e | Inr w1 \<Rightarrow> run c ys w1)"
  by (induction xs arbitrary: w) (auto split: sum.splits)

lemma run_after_init:
  assumes "\<not> list_ex is_init ops"
    and "run c (pre @ Op_init aml_res calloc_res lp # ops) w = Inr w'"
  shows "wl_loop w' = lp"
proof -
  from assms(2) obtain w1 where "run c pre w = Inr w1"
    and r: "run c ops (snd (aml_wl_loop_init aml_res calloc_res lp w1)) = Inr w'"
    by (auto simp: run_append split: sum.splits)
  from run_wl_loop [OF assms(1) r] show ?thesis
    by (simp add: init_wl_loop)
qed

text \<open>
  C10. \<open>wl_backend_new_state\<close> takes the inner loop and no host loop; the state it
  returns has the value of the static variable \<open>wl_loop\<close>. \<open>aml_wl_loop_init\<close> with the
  host loop \<open>lp\<close> stores \<open>lp\<close> there before the inner loop calls \<open>new_state\<close>, and nothing
  else in the file writes the variable: after \<open>aml_wl_loop_init\<close> with \<open>lp\<close> and any
  further entries into the file other than \<open>aml_wl_loop_init\<close>, a state created by
  \<open>new_state\<close> references \<open>lp\<close>. After a second \<open>aml_wl_loop_init\<close> with \<open>lp2\<close>, a state
  created for any inner loop \<open>a\<close>, the first one included, references \<open>lp2\<close>.
\<close>

theorem new_state_reads_wl_loop:
  "aml_wl_loop_init (Some a0) (Some st0) lp0 w0 =
     (Some a0, w0\<lparr>wl_loop := lp0,
                  state_heap := (state_heap w0)(st0 \<mapsto> \<lparr>aml = a0, loop = lp0\<rparr>)\<rparr>) \<and>
   (\<not> list_ex is_init ops \<and>
    run c (Op_init aml_res calloc_res lp # ops) w = Inr w' \<longrightarrow>
      wl_backend_new_state (Some st) a w' =
        (Some st, w'\<lparr>state_heap := (state_heap w')(st \<mapsto> \<lparr>aml = a, loop = lp\<rparr>)\<rparr>)) \<and>
   (\<not> list_ex is_init ops2 \<and>
    run c (Op_init aml_res1 calloc_res1 lp1 # ops1 @ Op_init aml_res2 calloc_res2 lp2 # ops2) w1 =
      Inr w2 \<longrightarrow>
      wl_backend_new_state (Some st) a w2 =
        (Some st, w2\<lparr>state_heap := (state_heap w2)(st \<mapsto> \<lparr>aml = a, loop = lp2\<rparr>)\<rparr>))"
proof (intro conjI impI)
  show "aml_wl_loop_init (Some a0) (Some st0) lp0 w0 =
     (Some a0, w0\<lparr>wl_loop := lp0,
                  state_heap := (state_heap w0)(st0 \<mapsto> \<lparr>aml = a0, loop = lp0\<rparr>)\<rparr>)"
    by (simp add: aml_wl_loop_init_def aml_new_def wl_backend_new_state_def)
next
  assume "\<not> list_ex is_init ops \<and> run c (Op_init aml_res calloc_res lp # ops) w = Inr w'"
  then have "wl_loop w' = lp"
    using run_after_init [of ops c "[]" aml_res calloc_res lp w w'] by simp
  then show "wl_backend_new_state (Some st) a w' =
        (Some st, w'\<lparr>state_heap := (state_heap w')(st \<mapsto> \<lparr>aml = a, loop = lp\<rparr>)\<rparr>)"
    by (simp add: wl_backend_new_state_def)
next
  assume "\<not> list_ex is_init ops2 \<and>
    run c (Op_init aml_res1 calloc_res1 lp1 # ops1 @ Op_init aml_res2 calloc_res2 lp2 # ops2) w1 =
      Inr w2"
  then have "wl_loop w2 = lp2"
    using run_after_init
      [of ops2 c "Op_init aml_res1 calloc_res1 lp1 # ops1" aml_res2 calloc_res2 lp2 w1 w2]
    by simp
  then show "wl_backend_new_state (Some st) a w2 =
        (Some st, w2\<lparr>state_heap := (state_heap w2)(st \<mapsto> \<lparr>aml = a, loop = lp2\<rparr>)\<rparr>)"
    by (simp add: wl_backend_new_state_def)
qed

text \<open>
  The first \<open>aml_wl_loop_init\<close> is given the host loop 100 and creates the inner loop 10;
  the second is given the host loop 200. A state then created for the inner loop 10
  references the host loop 200.
\<close>

theorem new_state_reads_wl_loop_witness:
  "\<not> list_ex is_init [Op_add_fd (Some 4) (Some 5) 1 2] \<and>
   run linux_wayland_bits
     (Op_init (Some 10) (Some 1) (Some 100) # [Op_add_fd (Some 4) (Some 5) 1 2]) boot =
     Inr world_fd_added \<and>
   wl_backend_new_state (Some 12) 11 world_fd_added =
     (Some 12, world_fd_added\<lparr>state_heap := (state_heap world_fd_added)(12 \<mapsto>
                  \<lparr>aml = 11, loop = Some 100\<rparr>)\<rparr>) \<and>
   \<not> list_ex is_init [] \<and>
   run linux_wayland_bits
     (Op_init (Some 10) (Some 1) (Some 100) # [Op_add_fd (Some 4) (Some 5) 1 2] @
      Op_init (Some 11) (Some 9) (Some 200) # []) boot =
     Inr world_reinit \<and>
   wl_backend_new_state (Some 12) 10 world_reinit =
     (Some 12, world_reinit\<lparr>state_heap := (state_heap world_reinit)(12 \<mapsto>
                  \<lparr>aml = 10, loop = Some 200\<rparr>)\<rparr>)"
proof -
  have n: "\<not> list_ex is_init [Op_add_fd (Some 4) (Some 5) 1 2]" "\<not> list_ex is_init []"
    by simp_all
  have r1: "run linux_wayland_bits
     (Op_init (Some 10) (Some 1) (Some 100) # [Op_add_fd (Some 4) (Some 5) 1 2]) boot =
     Inr world_fd_added"
    by (simp add: boot_def world_fd_added_def aml_wl_loop_init_def aml_new_def
        wl_backend_new_state_def after_def wl_backend_add_fd_def event_source_data_new_def
        wl_event_loop_add_fd_def linux_wayland_bits_def wl_backend_events_from_poll_events_def)
  have r2: "run linux_wayland_bits
     (Op_init (Some 10) (Some 1) (Some 100) # [Op_add_fd (Some 4) (Some 5) 1 2] @
      Op_init (Some 11) (Some 9) (Some 200) # []) boot =
     Inr world_reinit"
    by (simp add: boot_def world_reinit_def aml_wl_loop_init_def aml_new_def
        wl_backend_new_state_def after_def wl_backend_add_fd_def event_source_data_new_def
        wl_event_loop_add_fd_def linux_wayland_bits_def wl_backend_events_from_poll_events_def)
  show ?thesis
    using new_state_reads_wl_loop
      [of 10 1 "Some 100" boot "[Op_add_fd (Some 4) (Some 5) 1 2]" linux_wayland_bits
          "Some 10" "Some 1" "Some 100" boot world_fd_added 12 11]
      new_state_reads_wl_loop
      [of 10 1 "Some 100" boot "[]" linux_wayland_bits
          "Some 11" "Some 9" "Some 200" boot world_fd_added 12 10 "[]"
          "Some 10" "Some 1" "Some 100" "[Op_add_fd (Some 4) (Some 5) 1 2]"
          "Some 11" "Some 9" "Some 200" boot world_reinit]
      n r1 r2
    by simp
qed

end
